theory Spec2Isabelle
  imports Main
begin

section \<open>The dematerialize operator of RxJS\<close>

text \<open>
  Source: \<^verbatim>\<open>src/internal/operators/dematerialize.ts\<close>. The file defines the function
  \<^verbatim>\<open>dematerialize\<close>, the class \<^verbatim>\<open>DeMaterializeOperator\<close> (one method, \<^verbatim>\<open>call\<close>) and the
  class \<^verbatim>\<open>DeMaterializeSubscriber\<close> (a constructor and the override of \<^verbatim>\<open>_next\<close>). The
  classes \<^verbatim>\<open>Notification\<close>, \<^verbatim>\<open>Subscriber\<close> and \<^verbatim>\<open>Observable\<close> are imported by that file;
  their behaviour is modelled from the specification and every such definition says so.
\<close>

subsection \<open>Data\<close>

text \<open>
  A protocol event on the three channels of an observer: \<^verbatim>\<open>next(v)\<close>, \<^verbatim>\<open>error(e)\<close>,
  \<^verbatim>\<open>complete()\<close>. The type is used at two instances, as \<^verbatim>\<open>Subscriber<T>\<close> is generic:
  upstream of the stage the payload of \<^verbatim>\<open>next\<close> is whatever the source emits, downstream
  it is a decoded value.
\<close>

datatype ('v, 'e) event = Next 'v | Error 'e | Complete

text \<open>
  Modelled from the spec: the class \<^verbatim>\<open>Notification\<close> (section 3 of the specification):
  a kind, a value that is present only for kind Next and an error that is present only
  for kind Error. \<open>None\<close> is JavaScript's \<^verbatim>\<open>undefined\<close>, as in
  \<^verbatim>\<open>new Notification('E', undefined, err)\<close> of the source's doc comment. The kinds are the
  characters \<^verbatim>\<open>'N'\<close>, \<^verbatim>\<open>'E'\<close>, \<^verbatim>\<open>'C'\<close> of that comment.
\<close>

datatype kind = N | E | C

record ('a, 'e) Notification =
  kind :: kind
  "value" :: "'a option"
  error :: "'e option"

text \<open>
  What a source can put on the next channel at run time. The TypeScript type says
  \<^verbatim>\<open>Notification<T>\<close>, but types are erased: \<^verbatim>\<open>null\<close> or any value without an
  \<^verbatim>\<open>observe\<close> method can arrive.
\<close>

datatype ('a, 'e) emitted = Notif "('a, 'e) Notification" | Null | NoObserve 'a

type_synonym ('a, 'e) downstream_event = "('a option, 'e option) event"
type_synonym ('a, 'e) upstream_event = "(('a, 'e) emitted, 'e option) event"

text \<open>The exception raised by \<^verbatim>\<open>value.observe(...)\<close> when \<^verbatim>\<open>value\<close> has no such method.\<close>

datatype exn = TypeError

datatype sub_state = Active | Closed

text \<open>
  Modelled from the spec: the state every \<^verbatim>\<open>Subscriber\<close> owns (section 3: state is
  Active or Closed).
\<close>

record Subscriber_fields =
  state :: sub_state

text \<open>
  Modelled from the spec: the downstream \<^verbatim>\<open>Subscriber\<close> handed to
  \<^verbatim>\<open>DeMaterializeOperator.call\<close> (sections 3 and 6): it owns its state and forwards to the
  three handlers of the consumer. \<open>received\<close> is the list of handler calls made so far,
  oldest first; \<open>unsubscribes_in\<close> is the consumer's behaviour: whether its handler, called
  with this event, unsubscribes the subscription from within the call (section 5).
\<close>

record ('a, 'e) Subscriber = Subscriber_fields +
  received :: "('a, 'e) downstream_event list"
  unsubscribes_in :: "('a, 'e) downstream_event \<Rightarrow> bool"

text \<open>
  \<^verbatim>\<open>class DeMaterializeSubscriber extends Subscriber\<close>: the inherited state and the
  \<^verbatim>\<open>destination\<close> reference set by \<^verbatim>\<open>super(destination)\<close>.
\<close>

record DeMaterializeSubscriber = Subscriber_fields +
  destination :: nat

text \<open>
  The object store: downstream subscribers and dematerialize subscribers by address, and
  the next unused address for a \<^verbatim>\<open>new DeMaterializeSubscriber\<close>.
  \<^verbatim>\<open>DeMaterializeOperator\<close> has no fields, so it has no part in the store.
\<close>

record ('a, 'e) heap =
  subscribers :: "nat \<Rightarrow> ('a, 'e) Subscriber"
  dematerializers :: "nat \<Rightarrow> DeMaterializeSubscriber"
  fresh :: nat

text \<open>
  The result of a delivery: the store after it, or the exception that left it together with
  the store at that moment.
\<close>

type_synonym ('a, 'e) result = "(exn \<times> ('a, 'e) heap) + ('a, 'e) heap"

fun heap_of :: "('a, 'e) result \<Rightarrow> ('a, 'e) heap" where
  "heap_of (Inl (x, h)) = h"
| "heap_of (Inr h) = h"

subsection \<open>The downstream subscriber\<close>

text \<open>
  Modelled from the spec: \<^verbatim>\<open>Subscriber.unsubscribe\<close> (sections 4.3 and 5, glossary entry
  Teardown): the subscriber becomes Closed and the teardown propagates upstream, to every
  dematerialize subscriber bound to it.
\<close>

definition Subscriber_unsubscribe :: "nat \<Rightarrow> ('a, 'e) heap \<Rightarrow> ('a, 'e) heap" where
  "Subscriber_unsubscribe d h =
     h\<lparr>subscribers := (subscribers h)(d := (subscribers h d)\<lparr>state := Closed\<rparr>),
       dematerializers := (\<lambda>s. if destination (dematerializers h s) = d
                                then (dematerializers h s)\<lparr>state := Closed\<rparr>
                                else dematerializers h s)\<rparr>"

text \<open>
  Modelled from the spec: one call of a handler of the consumer (section 5: a handler may
  unsubscribe its own subscription while it is being called).
\<close>

definition consumer_call :: "nat \<Rightarrow> ('a, 'e) downstream_event \<Rightarrow> ('a, 'e) heap \<Rightarrow> ('a, 'e) heap" where
  "consumer_call d ev h =
     (let h' = h\<lparr>subscribers :=
                   (subscribers h)(d := (subscribers h d)\<lparr>received := received (subscribers h d) @ [ev]\<rparr>)\<rparr>
      in if unsubscribes_in (subscribers h d) ev then Subscriber_unsubscribe d h' else h')"

text \<open>
  Modelled from the spec: \<^verbatim>\<open>Subscriber.next\<close> (section 3): a Closed subscriber forwards
  nothing; an Active one calls the consumer's next handler.
\<close>

definition Subscriber_next :: "nat \<Rightarrow> 'a option \<Rightarrow> ('a, 'e) heap \<Rightarrow> ('a, 'e) heap" where
  "Subscriber_next d v h =
     (if state (subscribers h d) = Closed then h else consumer_call d (Next v) h)"

text \<open>
  Modelled from the spec: \<^verbatim>\<open>Subscriber.error\<close> (sections 3 and 4.3): a Closed subscriber
  forwards nothing; on an Active one the error is delivered and closes it.
\<close>

definition Subscriber_error :: "nat \<Rightarrow> 'e option \<Rightarrow> ('a, 'e) heap \<Rightarrow> ('a, 'e) heap" where
  "Subscriber_error d e h =
     (if state (subscribers h d) = Closed then h
      else Subscriber_unsubscribe d (consumer_call d (Error e) h))"

text \<open>
  Modelled from the spec: \<^verbatim>\<open>Subscriber.complete\<close> (sections 3 and 4.3): a Closed
  subscriber forwards nothing; on an Active one the completion is delivered and closes it.
\<close>

definition Subscriber_complete :: "nat \<Rightarrow> ('a, 'e) heap \<Rightarrow> ('a, 'e) heap" where
  "Subscriber_complete d h =
     (if state (subscribers h d) = Closed then h
      else Subscriber_unsubscribe d (consumer_call d Complete h))"

subsection \<open>Notification.observe\<close>

text \<open>
  Modelled from the spec: a sink (section 6): three callable channels, here acting on a
  state.
\<close>

record ('v, 'e, 's) Observer =
  on_next :: "'v \<Rightarrow> 's \<Rightarrow> 's"
  on_error :: "'e \<Rightarrow> 's \<Rightarrow> 's"
  on_complete :: "'s \<Rightarrow> 's"

text \<open>
  Modelled from the spec: \<^verbatim>\<open>Notification.observe\<close>, the replay of section 4.1: one call
  chosen by the kind.
\<close>

definition observe :: "('a, 'e) Notification \<Rightarrow> ('a option, 'e option, 's) Observer \<Rightarrow> 's \<Rightarrow> 's" where
  "observe n observer \<sigma> =
     (case kind n of
        N \<Rightarrow> on_next observer (value n) \<sigma>
      | E \<Rightarrow> on_error observer (error n) \<sigma>
      | C \<Rightarrow> on_complete observer \<sigma>)"

text \<open>The subscriber at address \<open>d\<close> seen as an observer.\<close>

definition as_observer :: "nat \<Rightarrow> ('a option, 'e option, ('a, 'e) heap) Observer" where
  "as_observer d =
     \<lparr>on_next = Subscriber_next d, on_error = Subscriber_error d, on_complete = Subscriber_complete d\<rparr>"

text \<open>A probe observer that writes down every call made on it.\<close>

definition recorder :: "('v, 'e, ('v, 'e) event list) Observer" where
  "recorder =
     \<lparr>on_next = (\<lambda>v log. log @ [Next v]),
      on_error = (\<lambda>e log. log @ [Error e]),
      on_complete = (\<lambda>log. log @ [Complete])\<rparr>"

text \<open>The event a Notification stands for.\<close>

definition replayed :: "('a, 'e) Notification \<Rightarrow> ('a, 'e) downstream_event" where
  "replayed n = (case kind n of N \<Rightarrow> Next (value n) | E \<Rightarrow> Error (error n) | C \<Rightarrow> Complete)"

subsection \<open>DeMaterializeSubscriber\<close>

text \<open>
  \<^verbatim>\<open>protected _next(value: T) { value.observe(this.destination); }\<close>
  A value without an \<^verbatim>\<open>observe\<close> method makes the call raise a TypeError before anything
  else happens.
\<close>

definition DeMaterializeSubscriber__next ::
  "nat \<Rightarrow> ('a, 'e) emitted \<Rightarrow> ('a, 'e) heap \<Rightarrow> ('a, 'e) result" where
  "DeMaterializeSubscriber__next this v h =
     (case v of
        Notif n \<Rightarrow> Inr (observe n (as_observer (destination (dematerializers h this))) h)
      | Null \<Rightarrow> Inl (TypeError, h)
      | NoObserve x \<Rightarrow> Inl (TypeError, h))"

text \<open>
  The class overrides \<^verbatim>\<open>_next\<close> only; the public channels \<^verbatim>\<open>next\<close>, \<^verbatim>\<open>error\<close> and
  \<^verbatim>\<open>complete\<close> are those it inherits from \<^verbatim>\<open>Subscriber\<close>.
\<close>

text \<open>
  Modelled from the spec: the transition of a \<^verbatim>\<open>Subscriber\<close> from Active to Closed
  (section 4.3), for a dematerialize subscriber.
\<close>

definition close_self :: "nat \<Rightarrow> ('a, 'e) heap \<Rightarrow> ('a, 'e) heap" where
  "close_self this h =
     h\<lparr>dematerializers := (dematerializers h)(this := (dematerializers h this)\<lparr>state := Closed\<rparr>)\<rparr>"

text \<open>
  Modelled from the spec: the inherited \<^verbatim>\<open>Subscriber.next\<close> (section 3): a Closed subscriber
  drops the value, an Active one hands it to \<^verbatim>\<open>_next\<close>.
\<close>

definition DeMaterializeSubscriber_next ::
  "nat \<Rightarrow> ('a, 'e) emitted \<Rightarrow> ('a, 'e) heap \<Rightarrow> ('a, 'e) result" where
  "DeMaterializeSubscriber_next this v h =
     (if state (dematerializers h this) = Closed then Inr h
      else DeMaterializeSubscriber__next this v h)"

text \<open>
  Modelled from the spec: the inherited \<^verbatim>\<open>Subscriber.error\<close> (sections 4.2 and 4.3): a
  Closed subscriber drops the error; an Active one closes and forwards the error to the
  error channel of its destination.
\<close>

definition DeMaterializeSubscriber_error ::
  "nat \<Rightarrow> 'e option \<Rightarrow> ('a, 'e) heap \<Rightarrow> ('a, 'e) result" where
  "DeMaterializeSubscriber_error this e h =
     (if state (dematerializers h this) = Closed then Inr h
      else Inr (Subscriber_error (destination (dematerializers h this)) e (close_self this h)))"

text \<open>
  Modelled from the spec: the inherited \<^verbatim>\<open>Subscriber.complete\<close> (sections 4.2 and 4.3): a
  Closed subscriber drops the event; an Active one closes and calls the complete channel of
  its destination.
\<close>

definition DeMaterializeSubscriber_complete :: "nat \<Rightarrow> ('a, 'e) heap \<Rightarrow> ('a, 'e) result" where
  "DeMaterializeSubscriber_complete this h =
     (if state (dematerializers h this) = Closed then Inr h
      else Inr (Subscriber_complete (destination (dematerializers h this)) (close_self this h)))"

text \<open>One upstream event delivered to the subscriber, and a sequence of them; an exception ends the sequence.\<close>

fun deliver :: "nat \<Rightarrow> ('a, 'e) upstream_event \<Rightarrow> ('a, 'e) heap \<Rightarrow> ('a, 'e) result" where
  "deliver this (Next v) h = DeMaterializeSubscriber_next this v h"
| "deliver this (Error e) h = DeMaterializeSubscriber_error this e h"
| "deliver this Complete h = DeMaterializeSubscriber_complete this h"

fun deliver_all :: "nat \<Rightarrow> ('a, 'e) upstream_event list \<Rightarrow> ('a, 'e) heap \<Rightarrow> ('a, 'e) result" where
  "deliver_all this [] h = Inr h"
| "deliver_all this (ev # evs) h =
     (case deliver this ev h of
        Inl x \<Rightarrow> Inl x
      | Inr h' \<Rightarrow> deliver_all this evs h')"

subsection \<open>DeMaterializeOperator and dematerialize\<close>

text \<open>
  \<^verbatim>\<open>new DeMaterializeSubscriber(subscriber)\<close>: the constructor only calls
  \<^verbatim>\<open>super(destination)\<close>. Modelled from the spec: the constructor of \<^verbatim>\<open>Subscriber\<close>
  (sections 3 and 4.3, glossary entry Teardown): a new subscriber bound to its destination.
  It is Active when its destination is Active. A Closed destination has been torn down,
  and the teardown reaches every subscriber upstream of it: a subscriber made on a Closed
  destination is Closed from the start.
\<close>

definition new_DeMaterializeSubscriber :: "nat \<Rightarrow> ('a, 'e) heap \<Rightarrow> nat \<times> ('a, 'e) heap" where
  "new_DeMaterializeSubscriber subscriber h =
     (fresh h,
      h\<lparr>dematerializers := (dematerializers h)(fresh h :=
             \<lparr>state = state (subscribers h subscriber), destination = subscriber\<rparr>),
        fresh := Suc (fresh h)\<rparr>)"

text \<open>
  A source is its \<^verbatim>\<open>subscribe\<close> method: given the address of a subscriber, it acts on the
  store. The class of the source is not part of the file, so it is a parameter.
\<close>

type_synonym ('a, 'e) source = "nat \<Rightarrow> ('a, 'e) heap \<Rightarrow> ('a, 'e) result"

text \<open>
  \<^verbatim>\<open>call(subscriber, source) { return source.subscribe(new DeMaterializeSubscriber(subscriber)); }\<close>
\<close>

definition DeMaterializeOperator_call ::
  "nat \<Rightarrow> ('a, 'e) source \<Rightarrow> ('a, 'e) heap \<Rightarrow> ('a, 'e) result" where
  "DeMaterializeOperator_call subscriber source h =
     (case new_DeMaterializeSubscriber subscriber h of (s, h') \<Rightarrow> source s h')"

text \<open>
  Modelled from the spec: \<^verbatim>\<open>Observable.lift\<close> (section 2): subscribing to the lifted
  observable with a downstream subscriber runs the \<^verbatim>\<open>call\<close> method of the operator on
  that subscriber and the source.
\<close>

definition lift ::
  "('a, 'e) source \<Rightarrow> (nat \<Rightarrow> ('a, 'e) source \<Rightarrow> ('a, 'e) heap \<Rightarrow> ('a, 'e) result) \<Rightarrow> ('a, 'e) source" where
  "lift source operator_call = (\<lambda>subscriber. operator_call subscriber source)"

text \<open>
  \<^verbatim>\<open>dematerialize()\<close> returns the function
  \<^verbatim>\<open>source => source.lift(new DeMaterializeOperator())\<close>; \<open>dematerialize source\<close> is that
  function applied to a source. The operator object has no field and the one method
  \<^verbatim>\<open>call\<close>.
\<close>

definition dematerialize :: "('a, 'e) source \<Rightarrow> ('a, 'e) source" where
  "dematerialize source = lift source DeMaterializeOperator_call"

text \<open>A synchronous source that delivers a fixed list of events when it is subscribed to.\<close>

definition of_events :: "('a, 'e) upstream_event list \<Rightarrow> ('a, 'e) source" where
  "of_events evs = (\<lambda>s. deliver_all s evs)"

subsection \<open>Encoding events as Notifications\<close>

text \<open>
  Modelled from the spec: the encoder \<^verbatim>\<open>materialize\<close> (glossary; testable property 1), which
  is not part of the file: every live event becomes the Notification of its kind, emitted
  on the next channel.
\<close>

fun encode :: "('a, 'e) downstream_event \<Rightarrow> ('a, 'e) Notification" where
  "encode (Next v) = \<lparr>kind = N, value = v, error = None\<rparr>"
| "encode (Error e) = \<lparr>kind = E, value = None, error = e\<rparr>"
| "encode Complete = \<lparr>kind = C, value = None, error = None\<rparr>"

definition materialize :: "('a, 'e) downstream_event list \<Rightarrow> ('a, 'e) upstream_event list" where
  "materialize es = map (\<lambda>e. Next (Notif (encode e))) es"

subsection \<open>Vocabulary of the properties\<close>

text \<open>A sequence of events cut after its first error or complete.\<close>

fun until_terminal :: "('v, 'e) event list \<Rightarrow> ('v, 'e) event list" where
  "until_terminal [] = []"
| "until_terminal (Next v # es) = Next v # until_terminal es"
| "until_terminal (Error e # es) = [Error e]"
| "until_terminal (Complete # es) = [Complete]"

fun is_next :: "('v, 'e) event \<Rightarrow> bool" where
  "is_next (Next v) = True"
| "is_next (Error e) = False"
| "is_next Complete = False"

text \<open>At most one error or complete, and nothing after it.\<close>

fun single_terminal :: "('v, 'e) event list \<Rightarrow> bool" where
  "single_terminal [] = True"
| "single_terminal (Next v # es) = single_terminal es"
| "single_terminal (Error e # es) = (es = [])"
| "single_terminal (Complete # es) = (es = [])"

text \<open>The arguments of the next calls in a sequence of calls.\<close>

fun next_args :: "('v, 'e) event list \<Rightarrow> 'v list" where
  "next_args [] = []"
| "next_args (Next v # es) = v # next_args es"
| "next_args (ev # es) = next_args es"

fun is_Notification :: "('a, 'e) emitted \<Rightarrow> bool" where
  "is_Notification (Notif n) = True"
| "is_Notification Null = False"
| "is_Notification (NoObserve x) = False"

text \<open>The precondition of the operator: every value on the next channel is a Notification.\<close>

fun notifications_only :: "('a, 'e) upstream_event list \<Rightarrow> bool" where
  "notifications_only [] = True"
| "notifications_only (Next v # evs) = (is_Notification v \<and> notifications_only evs)"
| "notifications_only (Error e # evs) = notifications_only evs"
| "notifications_only (Complete # evs) = notifications_only evs"

text \<open>
  An input of Notifications with no Error-kind Notification and no direct upstream error.
\<close>

fun without_errors :: "('a, 'e) upstream_event list \<Rightarrow> bool" where
  "without_errors [] = True"
| "without_errors (Next (Notif n) # evs) = (kind n \<noteq> E \<and> without_errors evs)"
| "without_errors (Next Null # evs) = False"
| "without_errors (Next (NoObserve x) # evs) = False"
| "without_errors (Error e # evs) = False"
| "without_errors (Complete # evs) = without_errors evs"

text \<open>The values of the Next-kind Notifications of an input, in order.\<close>

fun decoded_nexts :: "('a, 'e) upstream_event list \<Rightarrow> 'a option list" where
  "decoded_nexts [] = []"
| "decoded_nexts (Next (Notif n) # evs) =
     (if kind n = N then value n # decoded_nexts evs else decoded_nexts evs)"
| "decoded_nexts (ev # evs) = decoded_nexts evs"

text \<open>The part of an input before its first Complete-kind Notification or direct complete.\<close>

fun until_complete :: "('a, 'e) upstream_event list \<Rightarrow> ('a, 'e) upstream_event list" where
  "until_complete [] = []"
| "until_complete (Next (Notif n) # evs) =
     (if kind n = C then [] else Next (Notif n) # until_complete evs)"
| "until_complete (Complete # evs) = []"
| "until_complete (ev # evs) = ev # until_complete evs"

text \<open>
  What the consumer of a live subscription is called with, for an input: each Next-kind
  Notification is a next call, the first terminal event (replayed or direct) is the last
  call, and a value that is not a Notification ends the run by an exception.
\<close>

fun expected :: "('a, 'e) upstream_event list \<Rightarrow> ('a, 'e) downstream_event list" where
  "expected [] = []"
| "expected (Next (Notif n) # evs) =
     (if kind n = N then Next (value n) # expected evs else [replayed n])"
| "expected (Next Null # evs) = []"
| "expected (Next (NoObserve x) # evs) = []"
| "expected (Error e # evs) = [Error e]"
| "expected (Complete # evs) = [Complete]"

text \<open>The consumer behind \<open>d\<close> never unsubscribes from within a handler.\<close>

definition quiet :: "('a, 'e) heap \<Rightarrow> nat \<Rightarrow> bool" where
  "quiet h d = (\<forall>ev. \<not> unsubscribes_in (subscribers h d) ev)"

text \<open>The dematerialize subscriber \<open>s\<close> is Active and bound to the Active subscriber \<open>d\<close>.\<close>

definition live :: "('a, 'e) heap \<Rightarrow> nat \<Rightarrow> nat \<Rightarrow> bool" where
  "live h s d =
     (state (dematerializers h s) = Active \<and> destination (dematerializers h s) = d
      \<and> state (subscribers h d) = Active)"

text \<open>
  The log of a downstream subscriber agrees with its state: an Active one has received next
  calls only, a Closed one at most one terminal call, as its last.
\<close>

definition well_closed :: "('a, 'e) heap \<Rightarrow> nat \<Rightarrow> bool" where
  "well_closed h d =
     (if state (subscribers h d) = Active then list_all is_next (received (subscribers h d))
      else single_terminal (received (subscribers h d)))"

text \<open>
  A store to start from: every downstream subscriber is Active and has received nothing,
  its consumer unsubscribes in the calls listed in \<open>us\<close>, and no dematerialize subscriber
  has been created.
\<close>

definition initial_heap :: "('a, 'e) downstream_event list \<Rightarrow> ('a, 'e) heap" where
  "initial_heap us =
     \<lparr>subscribers = (\<lambda>d. \<lparr>state = Active, received = [], unsubscribes_in = (\<lambda>ev. ev \<in> set us)\<rparr>),
      dematerializers = (\<lambda>s. \<lparr>state = Closed, destination = 0\<rparr>),
      fresh = 0\<rparr>"

subsection \<open>Several subscriptions\<close>

text \<open>
  Deliveries made after the subscriptions, to several subscribers, interleaved in any
  order. An exception goes back to the source that made the delivery; the store stays as
  the exception left it.
\<close>

fun run_schedule :: "(nat \<times> ('a, 'e) upstream_event) list \<Rightarrow> ('a, 'e) heap \<Rightarrow> ('a, 'e) heap" where
  "run_schedule [] h = h"
| "run_schedule ((s, ev) # rest) h = run_schedule rest (heap_of (deliver s ev h))"

definition only :: "nat \<Rightarrow> (nat \<times> ('a, 'e) upstream_event) list \<Rightarrow> (nat \<times> ('a, 'e) upstream_event) list" where
  "only t sched = filter (\<lambda>(s, ev). s = t) sched"

text \<open>All the state of one subscription: its dematerialize subscriber and the subscriber downstream of it.\<close>

definition view :: "('a, 'e) heap \<Rightarrow> nat \<Rightarrow> DeMaterializeSubscriber \<times> ('a, 'e) Subscriber" where
  "view h s = (dematerializers h s, subscribers h (destination (dematerializers h s)))"

text \<open>Every delivery of the schedule goes to \<open>t\<close> or to a subscriber with another destination.\<close>

definition apart :: "('a, 'e) heap \<Rightarrow> nat \<Rightarrow> (nat \<times> ('a, 'e) upstream_event) list \<Rightarrow> bool" where
  "apart h t sched =
     list_all (\<lambda>(s, ev). s = t \<or> destination (dematerializers h s) \<noteq> destination (dematerializers h t)) sched"

section \<open>Auxiliary facts\<close>

lemmas chan_defs = Subscriber_next_def Subscriber_error_def Subscriber_complete_def
  consumer_call_def Subscriber_unsubscribe_def

lemmas dm_defs = DeMaterializeSubscriber_next_def DeMaterializeSubscriber_error_def
  DeMaterializeSubscriber_complete_def DeMaterializeSubscriber__next_def close_self_def
  observe_def as_observer_def

lemmas run_defs = dematerialize_def lift_def DeMaterializeOperator_call_def of_events_def
  new_DeMaterializeSubscriber_def initial_heap_def

lemma not_Closed: "(x \<noteq> Closed) = (x = Active)"
  by (cases x) simp_all

subsection \<open>Single deliveries\<close>

lemma closed_drop: "state (dematerializers h s) = Closed \<Longrightarrow> deliver s ev h = Inr h"
  by (cases ev) (simp_all add: dm_defs)

lemma closed_drop_all: "state (dematerializers h s) = Closed \<Longrightarrow> deliver_all s evs h = Inr h"
  by (induction evs) (simp_all add: closed_drop)

lemma destination_deliver:
  "destination (dematerializers (heap_of (deliver s ev h)) t) = destination (dematerializers h t)"
proof (cases ev)
  case (Next v)
  then show ?thesis
    by (cases v) (auto simp: dm_defs chan_defs Let_def split: kind.splits)
next
  case (Error e)
  then show ?thesis by (auto simp: dm_defs chan_defs Let_def)
next
  case Complete
  then show ?thesis by (auto simp: dm_defs chan_defs Let_def)
qed

lemma deliver_Notif_Inr: "\<exists>h'. deliver s (Next (Notif n)) h = Inr h'"
  by (simp add: dm_defs)

lemma step_notif:
  assumes "live h s d" "quiet h d"
  shows "\<exists>h1. deliver s (Next (Notif n)) h = Inr h1
     \<and> received (subscribers h1 d) = received (subscribers h d) @ [replayed n]
     \<and> state (dematerializers h1 s) = (if kind n = N then Active else Closed)
     \<and> state (subscribers h1 d) = (if kind n = N then Active else Closed)
     \<and> destination (dematerializers h1 s) = d
     \<and> unsubscribes_in (subscribers h1 d) = unsubscribes_in (subscribers h d)"
  using assms
  by (cases "kind n") (simp_all add: live_def quiet_def dm_defs chan_defs replayed_def Let_def)

lemma step_error:
  assumes "live h s d"
  shows "\<exists>h1. deliver s (Error e) h = Inr h1
     \<and> received (subscribers h1 d) = received (subscribers h d) @ [Error e]
     \<and> state (dematerializers h1 s) = Closed"
  using assms by (simp add: live_def dm_defs chan_defs Let_def)

lemma step_complete:
  assumes "live h s d"
  shows "\<exists>h1. deliver s Complete h = Inr h1
     \<and> received (subscribers h1 d) = received (subscribers h d) @ [Complete]
     \<and> state (dematerializers h1 s) = Closed"
  using assms by (simp add: live_def dm_defs chan_defs Let_def)

subsection \<open>Runs of a live subscription with a quiet consumer\<close>

lemma run_expected:
  assumes "live h s d" "quiet h d"
  shows "received (subscribers (heap_of (deliver_all s inp h)) d)
           = received (subscribers h d) @ expected inp"
  using assms
proof (induction inp arbitrary: h)
  case Nil
  then show ?case by simp
next
  case (Cons ev evs)
  show ?case
  proof (cases ev)
    case (Next v)
    show ?thesis
    proof (cases v)
      case (Notif n)
      from step_notif[OF Cons.prems, of n] obtain h1 where
        h1: "deliver s (Next (Notif n)) h = Inr h1"
        "received (subscribers h1 d) = received (subscribers h d) @ [replayed n]"
        "state (dematerializers h1 s) = (if kind n = N then Active else Closed)"
        "state (subscribers h1 d) = (if kind n = N then Active else Closed)"
        "destination (dematerializers h1 s) = d"
        "unsubscribes_in (subscribers h1 d) = unsubscribes_in (subscribers h d)"
        by blast
      show ?thesis
      proof (cases "kind n = N")
        case True
        with h1 Cons.prems have "live h1 s d" "quiet h1 d"
          by (simp_all add: live_def quiet_def)
        from Cons.IH[OF this] h1 True Next Notif show ?thesis
          by (simp add: replayed_def)
      next
        case False
        with h1 have "deliver_all s evs h1 = Inr h1"
          by (simp add: closed_drop_all)
        with h1 False Next Notif show ?thesis by simp
      qed
    next
      case Null
      with Next Cons.prems show ?thesis by (simp add: live_def dm_defs)
    next
      case (NoObserve x)
      with Next Cons.prems show ?thesis by (simp add: live_def dm_defs)
    qed
  next
    case (Error e)
    from step_error[OF Cons.prems(1), of e] obtain h1 where
      h1: "deliver s (Error e) h = Inr h1"
      "received (subscribers h1 d) = received (subscribers h d) @ [Error e]"
      "state (dematerializers h1 s) = Closed"
      by blast
    then have "deliver_all s evs h1 = Inr h1" by (simp add: closed_drop_all)
    with h1 Error show ?thesis by simp
  next
    case Complete
    from step_complete[OF Cons.prems(1)] obtain h1 where
      h1: "deliver s Complete h = Inr h1"
      "received (subscribers h1 d) = received (subscribers h d) @ [Complete]"
      "state (dematerializers h1 s) = Closed"
      by blast
    then have "deliver_all s evs h1 = Inr h1" by (simp add: closed_drop_all)
    with h1 Complete show ?thesis by simp
  qed
qed

lemma deliver_all_Inr: "notifications_only inp \<Longrightarrow> \<exists>h'. deliver_all s inp h = Inr h'"
proof (induction inp arbitrary: h)
  case Nil
  then show ?case by simp
next
  case (Cons ev evs)
  have "\<exists>h1. deliver s ev h = Inr h1"
  proof (cases ev)
    case (Next v)
    with Cons.prems obtain n where "v = Notif n" by (cases v) simp_all
    with Next deliver_Notif_Inr[of s n h] show ?thesis by simp
  next
    case (Error e)
    then show ?thesis by (simp add: dm_defs)
  next
    case Complete
    then show ?thesis by (simp add: dm_defs)
  qed
  then obtain h1 where "deliver s ev h = Inr h1" by blast
  moreover from Cons have "\<exists>h'. deliver_all s evs h1 = Inr h'"
    by (cases ev) auto
  ultimately show ?case by simp
qed

lemma new_live:
  assumes "state (subscribers h d) = Active"
  shows "live (snd (new_DeMaterializeSubscriber d h)) (fresh h) d"
    and "subscribers (snd (new_DeMaterializeSubscriber d h)) = subscribers h"
  using assms by (simp_all add: new_DeMaterializeSubscriber_def live_def)

lemma dematerialize_of_events:
  "dematerialize (of_events inp) d h
     = deliver_all (fresh h) inp (snd (new_DeMaterializeSubscriber d h))"
  by (simp add: dematerialize_def lift_def DeMaterializeOperator_call_def of_events_def
      new_DeMaterializeSubscriber_def)

lemma dematerialize_expected:
  assumes "state (subscribers h d) = Active" "quiet h d"
  shows "received (subscribers (heap_of (dematerialize (of_events inp) d h)) d)
           = received (subscribers h d) @ expected inp"
proof -
  let ?h0 = "snd (new_DeMaterializeSubscriber d h)"
  have "live ?h0 (fresh h) d" using assms(1) by (rule new_live)
  moreover have "quiet ?h0 d"
    using assms(2) by (simp add: quiet_def new_live(2)[OF assms(1)])
  ultimately have "received (subscribers (heap_of (deliver_all (fresh h) inp ?h0)) d)
      = received (subscribers ?h0 d) @ expected inp"
    by (rule run_expected)
  then show ?thesis by (simp add: dematerialize_of_events new_live(2)[OF assms(1)])
qed

subsection \<open>Encoded inputs\<close>

lemma notifications_only_materialize: "notifications_only (materialize es)"
  by (induction es) (simp_all add: materialize_def)

lemma expected_materialize: "expected (materialize es) = until_terminal es"
proof (induction es)
  case Nil
  then show ?case by (simp add: materialize_def)
next
  case (Cons e es)
  then show ?case by (cases e) (simp_all add: materialize_def replayed_def)
qed

lemma next_args_append: "next_args (xs @ ys) = next_args xs @ next_args ys"
  by (induction xs rule: next_args.induct) simp_all

lemma without_errors_notifications: "without_errors inp \<Longrightarrow> notifications_only inp"
  by (induction inp rule: without_errors.induct) simp_all

lemma next_args_expected:
  "without_errors inp \<Longrightarrow> next_args (expected inp) = decoded_nexts (until_complete inp)"
proof (induction inp rule: without_errors.induct)
  case (2 n evs)
  then show ?case by (cases "kind n") (simp_all add: replayed_def)
qed simp_all

subsection \<open>The log of a downstream subscriber\<close>

lemma single_terminal_nexts: "list_all is_next es \<Longrightarrow> single_terminal es"
  by (induction es rule: single_terminal.induct) simp_all

lemma single_terminal_snoc: "list_all is_next es \<Longrightarrow> single_terminal (es @ [ev])"
  by (induction es rule: single_terminal.induct) (simp_all, cases ev, simp_all)

lemma well_closed_next: "well_closed h d \<Longrightarrow> well_closed (Subscriber_next d' v h) d"
  by (auto simp: well_closed_def chan_defs Let_def not_Closed single_terminal_nexts
      single_terminal_snoc)

lemma well_closed_error: "well_closed h d \<Longrightarrow> well_closed (Subscriber_error d' e h) d"
  by (auto simp: well_closed_def chan_defs Let_def not_Closed single_terminal_nexts
      single_terminal_snoc)

lemma well_closed_complete: "well_closed h d \<Longrightarrow> well_closed (Subscriber_complete d' h) d"
  by (auto simp: well_closed_def chan_defs Let_def not_Closed single_terminal_nexts
      single_terminal_snoc)

lemma well_closed_close_self: "well_closed (close_self s h) d = well_closed h d"
  by (simp add: well_closed_def close_self_def)

lemma well_closed_deliver:
  assumes "well_closed h d"
  shows "well_closed (heap_of (deliver s ev h)) d"
proof (cases ev)
  case (Next v)
  show ?thesis
  proof (cases v)
    case (Notif n)
    with Next assms show ?thesis
      by (cases "kind n")
        (simp_all add: dm_defs well_closed_next well_closed_error well_closed_complete)
  next
    case Null
    with Next assms show ?thesis by (simp add: dm_defs)
  next
    case (NoObserve x)
    with Next assms show ?thesis by (simp add: dm_defs)
  qed
next
  case (Error e)
  with assms show ?thesis
    by (simp add: DeMaterializeSubscriber_error_def well_closed_error well_closed_close_self)
next
  case Complete
  with assms show ?thesis
    by (simp add: DeMaterializeSubscriber_complete_def well_closed_complete
        well_closed_close_self)
qed

lemma well_closed_deliver_all:
  "well_closed h d \<Longrightarrow> well_closed (heap_of (deliver_all s evs h)) d"
proof (induction evs arbitrary: h)
  case Nil
  then show ?case by simp
next
  case (Cons ev evs)
  show ?case
  proof (cases "deliver s ev h")
    case (Inl x)
    with well_closed_deliver[OF Cons.prems, of s ev] show ?thesis
      by (cases x) simp
  next
    case (Inr h1)
    with well_closed_deliver[OF Cons.prems, of s ev] have "well_closed h1 d" by simp
    from Cons.IH[OF this] Inr show ?thesis by simp
  qed
qed

lemma well_closed_single: "well_closed h d \<Longrightarrow> single_terminal (received (subscribers h d))"
  by (auto simp: well_closed_def single_terminal_nexts split: if_splits)

lemma terminal_closed:
  "well_closed h d \<Longrightarrow> \<not> list_all is_next (received (subscribers h d))
     \<Longrightarrow> state (subscribers h d) = Closed"
  by (cases "state (subscribers h d)") (simp_all add: well_closed_def)

lemma closed_dest_deliver:
  assumes "state (subscribers h d) = Closed"
  shows "state (subscribers (heap_of (deliver s ev h)) d) = Closed
     \<and> received (subscribers (heap_of (deliver s ev h)) d) = received (subscribers h d)"
proof (cases ev)
  case (Next v)
  with assms show ?thesis
    by (cases v) (auto simp: dm_defs chan_defs Let_def split: kind.splits)
next
  case (Error e)
  with assms show ?thesis by (auto simp: dm_defs chan_defs Let_def)
next
  case Complete
  with assms show ?thesis by (auto simp: dm_defs chan_defs Let_def)
qed

lemma closed_dest_deliver_all:
  "state (subscribers h d) = Closed \<Longrightarrow>
     received (subscribers (heap_of (deliver_all s evs h)) d) = received (subscribers h d)"
proof (induction evs arbitrary: h)
  case Nil
  then show ?case by simp
next
  case (Cons ev evs)
  show ?case
  proof (cases "deliver s ev h")
    case (Inl x)
    with closed_dest_deliver[OF Cons.prems, of s ev] show ?thesis
      by (cases x) simp
  next
    case (Inr h1)
    with closed_dest_deliver[OF Cons.prems, of s ev]
    have "state (subscribers h1 d) = Closed"
      "received (subscribers h1 d) = received (subscribers h d)" by simp_all
    with Cons.IH[of h1] Inr show ?thesis by simp
  qed
qed

lemma received_grows_deliver:
  "\<exists>calls. received (subscribers (heap_of (deliver s ev h)) d)
      = received (subscribers h d) @ calls"
proof (cases ev)
  case (Next v)
  then show ?thesis
    by (cases v) (auto simp: dm_defs chan_defs Let_def split: kind.splits)
next
  case (Error e)
  then show ?thesis by (auto simp: dm_defs chan_defs Let_def)
next
  case Complete
  then show ?thesis by (auto simp: dm_defs chan_defs Let_def)
qed

lemma received_grows_deliver_all:
  "\<exists>calls. received (subscribers (heap_of (deliver_all s evs h)) d)
      = received (subscribers h d) @ calls"
proof (induction evs arbitrary: h)
  case Nil
  then show ?case by simp
next
  case (Cons ev evs)
  obtain c1 where c1: "received (subscribers (heap_of (deliver s ev h)) d)
      = received (subscribers h d) @ c1"
    using received_grows_deliver by blast
  show ?case
  proof (cases "deliver s ev h")
    case (Inl x)
    with c1 show ?thesis by (cases x) simp
  next
    case (Inr h1)
    from Cons.IH[of h1] obtain c2 where
      "received (subscribers (heap_of (deliver_all s evs h1)) d)
         = received (subscribers h1 d) @ c2" by blast
    with c1 Inr show ?thesis by simp
  qed
qed

subsection \<open>Independence of subscriptions\<close>

lemma fresh_deliver: "fresh (heap_of (deliver s ev h)) = fresh h"
proof (cases ev)
  case (Next v)
  then show ?thesis
    by (cases v) (auto simp: dm_defs chan_defs Let_def split: kind.splits)
next
  case (Error e)
  then show ?thesis by (auto simp: dm_defs chan_defs Let_def)
next
  case Complete
  then show ?thesis by (auto simp: dm_defs chan_defs Let_def)
qed

lemma subscribers_frame:
  assumes "destination (dematerializers h s) \<noteq> d"
  shows "subscribers (heap_of (deliver s ev h)) d = subscribers h d"
proof (cases ev)
  case (Next v)
  with assms show ?thesis
    by (cases v) (auto simp: dm_defs chan_defs Let_def split: kind.splits)
next
  case (Error e)
  with assms show ?thesis by (auto simp: dm_defs chan_defs Let_def)
next
  case Complete
  with assms show ?thesis by (auto simp: dm_defs chan_defs Let_def)
qed

lemma view_frame:
  assumes "destination (dematerializers h s) \<noteq> destination (dematerializers h t)" "s \<noteq> t"
  shows "view (heap_of (deliver s ev h)) t = view h t"
proof (cases ev)
  case (Next v)
  with assms show ?thesis
    by (cases v) (auto simp: view_def dm_defs chan_defs Let_def split: kind.splits)
next
  case (Error e)
  with assms show ?thesis by (auto simp: view_def dm_defs chan_defs Let_def)
next
  case Complete
  with assms show ?thesis by (auto simp: view_def dm_defs chan_defs Let_def)
qed

lemma view_local:
  assumes "view h t = view h' t'"
  shows "view (heap_of (deliver t ev h)) t = view (heap_of (deliver t' ev h')) t'
     \<and> isl (deliver t ev h) = isl (deliver t' ev h')"
proof (cases ev)
  case (Next v)
  with assms show ?thesis
    by (cases v) (auto simp: view_def dm_defs chan_defs Let_def split: kind.splits)
next
  case (Error e)
  with assms show ?thesis by (auto simp: view_def dm_defs chan_defs Let_def)
next
  case Complete
  with assms show ?thesis by (auto simp: view_def dm_defs chan_defs Let_def)
qed

text \<open>The same facts for a run of deliveries to one subscriber.\<close>

lemma run_step:
  "heap_of (deliver_all s (ev # evs) h)
     = (if isl (deliver s ev h) then heap_of (deliver s ev h)
        else heap_of (deliver_all s evs (heap_of (deliver s ev h))))"
proof (cases "deliver s ev h")
  case (Inl x)
  then show ?thesis by (cases x) simp
next
  case (Inr h1)
  then show ?thesis by simp
qed

lemma fresh_deliver_all: "fresh (heap_of (deliver_all s evs h)) = fresh h"
proof (induction evs arbitrary: h)
  case Nil
  then show ?case by simp
next
  case (Cons ev evs)
  from Cons.IH[of "heap_of (deliver s ev h)"] show ?case
    by (simp only: run_step fresh_deliver split: if_splits) simp
qed

lemma destination_deliver_all:
  "destination (dematerializers (heap_of (deliver_all s evs h)) t) = destination (dematerializers h t)"
proof (induction evs arbitrary: h)
  case Nil
  then show ?case by simp
next
  case (Cons ev evs)
  from Cons.IH[of "heap_of (deliver s ev h)"] show ?case
    by (simp only: run_step destination_deliver split: if_splits) simp
qed

lemma subscribers_frame_all:
  assumes "destination (dematerializers h s) \<noteq> d"
  shows "subscribers (heap_of (deliver_all s evs h)) d = subscribers h d"
  using assms
proof (induction evs arbitrary: h)
  case Nil
  then show ?case by simp
next
  case (Cons ev evs)
  from Cons.prems have "destination (dematerializers (heap_of (deliver s ev h)) s) \<noteq> d"
    by (simp add: destination_deliver)
  from Cons.IH[OF this] subscribers_frame[OF Cons.prems, of ev] show ?case
    by (simp only: run_step split: if_splits) simp
qed

lemma view_frame_all:
  assumes "destination (dematerializers h s) \<noteq> destination (dematerializers h t)" "s \<noteq> t"
  shows "view (heap_of (deliver_all s evs h)) t = view h t"
  using assms(1)
proof (induction evs arbitrary: h)
  case Nil
  then show ?case by simp
next
  case (Cons ev evs)
  from Cons.prems
  have "destination (dematerializers (heap_of (deliver s ev h)) s)
      \<noteq> destination (dematerializers (heap_of (deliver s ev h)) t)"
    by (simp add: destination_deliver)
  from Cons.IH[OF this] view_frame[OF Cons.prems assms(2), of ev] show ?case
    by (simp only: run_step split: if_splits) simp
qed

lemma view_local_all:
  assumes "view h t = view h' t'"
  shows "view (heap_of (deliver_all t evs h)) t = view (heap_of (deliver_all t' evs h')) t'"
  using assms
proof (induction evs arbitrary: h h')
  case Nil
  then show ?case by simp
next
  case (Cons ev evs)
  from view_local[OF Cons.prems, of ev]
  have v: "view (heap_of (deliver t ev h)) t = view (heap_of (deliver t' ev h')) t'"
    and i: "isl (deliver t ev h) = isl (deliver t' ev h')"
    by simp_all
  from Cons.IH[OF v] v i show ?case
    by (simp only: run_step split: if_splits) simp
qed

text \<open>Deliveries interleaved by a schedule.\<close>

lemma view_schedule:
  assumes "apart h t sched" "view h t = view h' t"
  shows "view (run_schedule sched h) t = view (run_schedule (only t sched) h') t"
  using assms
proof (induction sched arbitrary: h h')
  case Nil
  then show ?case by (simp add: only_def)
next
  case (Cons p sched)
  obtain s ev where p: "p = (s, ev)" by (cases p)
  from Cons.prems(1) p have rest: "apart (heap_of (deliver s ev h)) t sched"
    by (simp add: apart_def destination_deliver)
  show ?case
  proof (cases "s = t")
    case True
    from view_local[OF Cons.prems(2), of ev]
    have "view (heap_of (deliver t ev h)) t = view (heap_of (deliver t ev h')) t" by simp
    from Cons.IH[OF rest[unfolded True] this] p True show ?thesis
      by (simp add: only_def)
  next
    case False
    with Cons.prems(1) p
    have "destination (dematerializers h s) \<noteq> destination (dematerializers h t)"
      by (simp add: apart_def)
    from view_frame[OF this False, of ev] Cons.prems(2)
    have "view (heap_of (deliver s ev h)) t = view h' t" by simp
    from Cons.IH[OF rest this] p False show ?thesis
      by (simp add: only_def)
  qed
qed

text \<open>Two subscriptions to the same stage, one after the other.\<close>

lemma two_subscriptions:
  assumes "da \<noteq> db"
    and "ha = heap_of (dematerialize (of_events evs) da h)"
    and "hb = heap_of (dematerialize (of_events evs) db ha)"
  shows "fresh ha = Suc (fresh h)"
    and "destination (dematerializers hb (fresh h)) = da"
    and "destination (dematerializers hb (fresh ha)) = db"
    and "view hb (fresh h) = view ha (fresh h)"
    and "view hb (fresh ha) = view (heap_of (dematerialize (of_events evs) db h)) (fresh h)"
proof -
  let ?ga = "snd (new_DeMaterializeSubscriber da h)"
  let ?gb = "snd (new_DeMaterializeSubscriber db ha)"
  let ?g = "snd (new_DeMaterializeSubscriber db h)"
  have ha: "ha = heap_of (deliver_all (fresh h) evs ?ga)"
    by (simp add: assms(2) dematerialize_of_events)
  have hb: "hb = heap_of (deliver_all (fresh ha) evs ?gb)"
    by (simp add: assms(3) dematerialize_of_events)
  show f: "fresh ha = Suc (fresh h)"
    by (simp add: ha fresh_deliver_all new_DeMaterializeSubscriber_def)
  have da: "destination (dematerializers ha (fresh h)) = da"
    by (simp add: ha destination_deliver_all new_DeMaterializeSubscriber_def)
  have ga: "destination (dematerializers ?gb (fresh h)) = da"
    "destination (dematerializers ?gb (fresh ha)) = db"
    using da by (simp_all add: f new_DeMaterializeSubscriber_def)
  show "destination (dematerializers hb (fresh h)) = da"
    "destination (dematerializers hb (fresh ha)) = db"
    using ga by (simp_all add: hb destination_deliver_all)
  have "view ?gb (fresh h) = view ha (fresh h)"
    by (simp add: view_def f new_DeMaterializeSubscriber_def)
  moreover have "view hb (fresh h) = view ?gb (fresh h)"
    unfolding hb using ga assms(1) f by (intro view_frame_all) simp_all
  ultimately show "view hb (fresh h) = view ha (fresh h)" by simp
  have "subscribers ha db = subscribers ?ga db"
    unfolding ha using assms(1)
    by (intro subscribers_frame_all) (simp add: new_DeMaterializeSubscriber_def)
  then have "subscribers ha db = subscribers h db"
    by (simp add: new_DeMaterializeSubscriber_def)
  then have "view ?gb (fresh ha) = view ?g (fresh h)"
    by (simp add: view_def new_DeMaterializeSubscriber_def)
  from view_local_all[OF this, of evs]
  show "view hb (fresh ha) = view (heap_of (dematerialize (of_events evs) db h)) (fresh h)"
    by (simp add: hb dematerialize_of_events)
qed

section \<open>The claims\<close>

text \<open>
  Claim C1 (round-trip law). Let \<open>es\<close> be any finite sequence of live events, each a
  \<open>Next v\<close>, an \<open>Error e\<close> or \<open>Complete\<close>. Encode it into Notifications, emit them from a
  source and subscribe to \<open>dematerialize\<close> of that source with an Active downstream
  subscriber whose consumer does not unsubscribe on its own. Then the subscription returns
  without an exception, and the consumer is called with exactly \<open>es\<close>, in order, cut after
  the first Error or Complete; the calls come after whatever it had received before.
\<close>

theorem roundtrip_law:
  assumes "state (subscribers h d) = Active" "quiet h d"
  shows "\<exists>h'. dematerialize (of_events (materialize es)) d h = Inr h'
     \<and> received (subscribers h' d) = received (subscribers h d) @ until_terminal es"
proof -
  obtain h' where h': "dematerialize (of_events (materialize es)) d h = Inr h'"
    using deliver_all_Inr[OF notifications_only_materialize]
    by (metis dematerialize_of_events)
  with dematerialize_expected[OF assms, of "materialize es"] show ?thesis
    by (simp add: expected_materialize)
qed

theorem roundtrip_law_witness:
  "state (subscribers (initial_heap [] :: (nat, string) heap) 0) = Active
   \<and> quiet (initial_heap [] :: (nat, string) heap) 0
   \<and> (\<exists>h'. dematerialize (of_events (materialize
          [Next (Some 1), Next (Some 2), Error (Some ''x''), Next (Some 3), Complete]))
        0 (initial_heap [] :: (nat, string) heap) = Inr h'
      \<and> received (subscribers h' 0) = [Next (Some 1), Next (Some 2), Error (Some ''x'')])"
  using roundtrip_law[of "initial_heap [] :: (nat, string) heap" 0
      "[Next (Some 1), Next (Some 2), Error (Some ''x''), Next (Some 3), Complete]"]
  by (simp add: initial_heap_def quiet_def)

text \<open>
  Claim C2 (replay dispatch). The \<open>_next\<close> handler of the dematerialize subscriber, given a
  Notification \<open>n\<close>, does one thing: it replays \<open>n\<close> onto its destination. Replaying \<open>n\<close>
  onto any sink is the one call chosen by the kind of \<open>n\<close>: next with the value of \<open>n\<close>,
  error with the error of \<open>n\<close>, or complete without a payload. A sink that writes down
  every call made on it has exactly that one call more afterwards. Notifications are
  values of the model, so a replay has no Notification to change.
\<close>

theorem replay_dispatch:
  "DeMaterializeSubscriber__next this (Notif n) h
      = Inr (observe n (as_observer (destination (dematerializers h this))) h)
   \<and> observe n sink \<sigma>
      = (case kind n of
           N \<Rightarrow> on_next sink (value n) \<sigma>
         | E \<Rightarrow> on_error sink (error n) \<sigma>
         | C \<Rightarrow> on_complete sink \<sigma>)
   \<and> observe n recorder log
      = log @ [case kind n of N \<Rightarrow> Next (value n) | E \<Rightarrow> Error (error n) | C \<Rightarrow> Complete]"
  by (cases "kind n") (simp_all add: DeMaterializeSubscriber__next_def observe_def recorder_def)

text \<open>
  Claim C3 (exactly one terminal). Take a downstream subscriber whose log agrees with its
  state, as that of every new subscriber does. Whatever sequence of upstream events is
  delivered to a dematerialize subscriber (Notifications of any kind, direct errors and
  completes, values that are not Notifications), the calls received by the consumer only
  grow at the end, they hold at most one error or complete, and nothing follows it. Once
  an error or complete has been received, no later delivery adds a call: an upstream
  complete after a replayed Error-kind Notification is dropped.
\<close>

theorem one_terminal:
  assumes "well_closed h d"
  shows "single_terminal (received (subscribers (heap_of (deliver_all s evs h)) d))
    \<and> (\<exists>calls. received (subscribers (heap_of (deliver_all s evs h)) d)
          = received (subscribers h d) @ calls)
    \<and> (\<not> list_all is_next (received (subscribers h d)) \<longrightarrow>
         received (subscribers (heap_of (deliver_all s evs h)) d) = received (subscribers h d))"
  using well_closed_single[OF well_closed_deliver_all[OF assms]]
    closed_dest_deliver_all[OF terminal_closed[OF assms]]
    received_grows_deliver_all
  by blast

theorem one_terminal_witness:
  "well_closed (heap_of (dematerialize (of_events
       [Next (Notif \<lparr>kind = N, value = Some ''A'', error = None\<rparr>),
        Next (Notif \<lparr>kind = E, value = None, error = Some ''TypeErrorX''\<rparr>)])
      0 (initial_heap [] :: (string, string) heap))) 0
   \<and> \<not> list_all is_next (received (subscribers (heap_of (dematerialize (of_events
       [Next (Notif \<lparr>kind = N, value = Some ''A'', error = None\<rparr>),
        Next (Notif \<lparr>kind = E, value = None, error = Some ''TypeErrorX''\<rparr>)])
      0 (initial_heap [] :: (string, string) heap))) 0))
   \<and> received (subscribers (heap_of (deliver_all 0
        [Complete, Next (Notif \<lparr>kind = N, value = Some ''B'', error = None\<rparr>)]
        (heap_of (dematerialize (of_events
       [Next (Notif \<lparr>kind = N, value = Some ''A'', error = None\<rparr>),
        Next (Notif \<lparr>kind = E, value = None, error = Some ''TypeErrorX''\<rparr>)])
      0 (initial_heap [] :: (string, string) heap))))) 0)
     = [Next (Some ''A''), Error (Some ''TypeErrorX'')]"
  using one_terminal[of "heap_of (dematerialize (of_events
       [Next (Notif \<lparr>kind = N, value = Some ''A'', error = None\<rparr>),
        Next (Notif \<lparr>kind = E, value = None, error = Some ''TypeErrorX''\<rparr>)])
      0 (initial_heap [] :: (string, string) heap))" 0 0
      "[Complete, Next (Notif \<lparr>kind = N, value = Some ''B'', error = None\<rparr>)]"]
  by (simp add: run_defs dm_defs chan_defs well_closed_def Let_def)

text \<open>
  Claim C4, as stated, fails: the input Next 1, Complete, Next 2 (three Notifications, none
  of kind Error, and no direct error) has the Next-kind values 1 and 2, but the consumer's
  next handler is called with 1 only, since the replayed Complete closes the subscription.
\<close>

theorem order_counterexample:
  "without_errors
     [Next (Notif \<lparr>kind = N, value = Some (1::nat), error = (None :: string option)\<rparr>),
      Next (Notif \<lparr>kind = C, value = None, error = None\<rparr>),
      Next (Notif \<lparr>kind = N, value = Some 2, error = None\<rparr>)]
   \<and> next_args (received (subscribers (heap_of (dematerialize (of_events
     [Next (Notif \<lparr>kind = N, value = Some (1::nat), error = (None :: string option)\<rparr>),
      Next (Notif \<lparr>kind = C, value = None, error = None\<rparr>),
      Next (Notif \<lparr>kind = N, value = Some 2, error = None\<rparr>)]) 0 (initial_heap []))) 0))
       = [Some 1]
   \<and> decoded_nexts
     [Next (Notif \<lparr>kind = N, value = Some (1::nat), error = (None :: string option)\<rparr>),
      Next (Notif \<lparr>kind = C, value = None, error = None\<rparr>),
      Next (Notif \<lparr>kind = N, value = Some 2, error = None\<rparr>)] = [Some 1, Some 2]"
  by (simp add: run_defs dm_defs chan_defs Let_def)

text \<open>
  Claim C4, amended (order preservation). For every input of Notifications with no
  Error-kind Notification and no direct upstream error, subscribed to with an Active
  downstream subscriber whose consumer does not unsubscribe on its own, the subscription
  returns without an exception and the arguments of the consumer's next calls are, in
  order, the values of the Next-kind Notifications of the input that come before its first
  Complete (a Complete-kind Notification or a direct upstream complete).
\<close>

theorem order_preserved:
  assumes "without_errors inp" "state (subscribers h d) = Active" "quiet h d"
  shows "\<exists>h'. dematerialize (of_events inp) d h = Inr h'
     \<and> next_args (received (subscribers h' d))
         = next_args (received (subscribers h d)) @ decoded_nexts (until_complete inp)"
proof -
  obtain h' where h': "dematerialize (of_events inp) d h = Inr h'"
    using deliver_all_Inr[OF without_errors_notifications[OF assms(1)]]
    by (metis dematerialize_of_events)
  with dematerialize_expected[OF assms(2,3), of inp] show ?thesis
    by (simp add: next_args_append next_args_expected[OF assms(1)])
qed

theorem order_preserved_witness:
  "without_errors
     [Next (Notif \<lparr>kind = N, value = Some (1::nat), error = (None :: string option)\<rparr>),
      Next (Notif \<lparr>kind = N, value = Some 2, error = None\<rparr>),
      Next (Notif \<lparr>kind = C, value = None, error = None\<rparr>),
      Next (Notif \<lparr>kind = N, value = Some 3, error = None\<rparr>)]
   \<and> state (subscribers (initial_heap [] :: (nat, string) heap) 0) = Active
   \<and> quiet (initial_heap [] :: (nat, string) heap) 0
   \<and> (\<exists>h'. dematerialize (of_events
     [Next (Notif \<lparr>kind = N, value = Some (1::nat), error = (None :: string option)\<rparr>),
      Next (Notif \<lparr>kind = N, value = Some 2, error = None\<rparr>),
      Next (Notif \<lparr>kind = C, value = None, error = None\<rparr>),
      Next (Notif \<lparr>kind = N, value = Some 3, error = None\<rparr>)]) 0 (initial_heap []) = Inr h'
     \<and> next_args (received (subscribers h' 0)) = [Some 1, Some 2])"
  using order_preserved[of
     "[Next (Notif \<lparr>kind = N, value = Some (1::nat), error = (None :: string option)\<rparr>),
      Next (Notif \<lparr>kind = N, value = Some 2, error = None\<rparr>),
      Next (Notif \<lparr>kind = C, value = None, error = None\<rparr>),
      Next (Notif \<lparr>kind = N, value = Some 3, error = None\<rparr>)]" "initial_heap []" 0]
  by (simp add: initial_heap_def quiet_def)

text \<open>
  Claim C5 (only the next handler is overridden). Take an Active dematerialize subscriber
  bound to an Active destination. A next is decoded: the Notification is replayed onto the
  destination. A direct upstream error is the inherited behaviour: the subscriber closes
  and calls the error channel of its destination with the same payload, so the consumer
  receives that one error call, undecoded. A direct upstream complete is forwarded to the
  complete channel in the same way.
\<close>

theorem only_next_overridden:
  assumes "live h s d"
  shows "deliver s (Next (Notif n)) h = Inr (observe n (as_observer d) h)
     \<and> deliver s (Error e) h = Inr (Subscriber_error d e (close_self s h))
     \<and> received (subscribers (heap_of (deliver s (Error e) h)) d)
         = received (subscribers h d) @ [Error e]
     \<and> deliver s Complete h = Inr (Subscriber_complete d (close_self s h))
     \<and> received (subscribers (heap_of (deliver s Complete h)) d)
         = received (subscribers h d) @ [Complete]"
  using assms by (simp add: live_def dm_defs chan_defs Let_def)

theorem only_next_overridden_witness:
  "live (snd (new_DeMaterializeSubscriber 0 (initial_heap [] :: (string, string) heap))) 0 0
   \<and> received (subscribers (heap_of (deliver 0 (Error (Some ''boom''))
        (snd (new_DeMaterializeSubscriber 0 (initial_heap [] :: (string, string) heap))))) 0)
       = [Error (Some ''boom'')]
   \<and> received (subscribers (heap_of (deliver 0 Complete
        (snd (new_DeMaterializeSubscriber 0 (initial_heap [] :: (string, string) heap))))) 0)
       = [Complete]"
  using only_next_overridden[of
      "snd (new_DeMaterializeSubscriber 0 (initial_heap [] :: (string, string) heap))" 0 0
      "\<lparr>kind = N, value = Some ''A'', error = None\<rparr>" "Some ''boom''"]
  by (simp add: live_def new_DeMaterializeSubscriber_def initial_heap_def dm_defs chan_defs Let_def)

text \<open>
  Claim C6 (idempotent drop). Any event delivered to a dematerialize subscriber that is
  Closed (a next with a Notification or with any other value, an error, a complete)
  returns without an exception and leaves the whole store as it was: no call reaches the
  destination or the consumer.
\<close>

theorem idempotent_drop:
  assumes "state (dematerializers h s) = Closed"
  shows "deliver s ev h = Inr h"
  using assms by (rule closed_drop)

theorem idempotent_drop_witness:
  "state (dematerializers (heap_of (deliver 0 Complete
      (snd (new_DeMaterializeSubscriber 0 (initial_heap [] :: (string, string) heap))))) 0) = Closed
   \<and> deliver 0 (Next Null) (heap_of (deliver 0 Complete
      (snd (new_DeMaterializeSubscriber 0 (initial_heap [] :: (string, string) heap)))))
     = Inr (heap_of (deliver 0 Complete
      (snd (new_DeMaterializeSubscriber 0 (initial_heap [] :: (string, string) heap)))))"
  using idempotent_drop[of "heap_of (deliver 0 Complete
      (snd (new_DeMaterializeSubscriber 0 (initial_heap [] :: (string, string) heap))))" 0
      "Next Null"]
  by (simp add: new_DeMaterializeSubscriber_def initial_heap_def dm_defs chan_defs Let_def)

text \<open>
  Claim C7 (statelessness of the stage). Subscribing to \<open>dematerialize\<close> of any source
  makes a new dematerialize subscriber, bound to the downstream subscriber of that
  subscription (and Active when that one is), and subscribes it to the source. Now
  subscribe twice to the same \<open>dematerialize\<close> of a source that emits \<open>evs\<close> on
  subscription, with two different downstream subscribers, and let further upstream
  events be delivered to the two dematerialize subscribers in any interleaving. The two
  dematerialize subscribers are at different addresses, each bound to its own downstream
  subscriber. The second subscription leaves the state of the first (its dematerialize
  subscriber, its downstream subscriber and the calls that one received) as it was, and
  itself ends as it would have without the first. After the later deliveries each
  subscription ends exactly as if the deliveries to the other had never been made.
\<close>

theorem subscriptions_independent:
  assumes "da \<noteq> db"
    and "ha = heap_of (dematerialize (of_events evs) da h)"
    and "hb = heap_of (dematerialize (of_events evs) db ha)"
    and "list_all (\<lambda>(s, ev). s = fresh h \<or> s = fresh ha) sched"
  shows "dematerialize source da h = source (fresh h) (snd (new_DeMaterializeSubscriber da h))
    \<and> dematerializers (snd (new_DeMaterializeSubscriber da h)) (fresh h)
        = \<lparr>state = state (subscribers h da), destination = da\<rparr>
    \<and> fresh h \<noteq> fresh ha
    \<and> destination (dematerializers hb (fresh h)) = da
    \<and> destination (dematerializers hb (fresh ha)) = db
    \<and> view hb (fresh h) = view ha (fresh h)
    \<and> view hb (fresh ha) = view (heap_of (dematerialize (of_events evs) db h)) (fresh h)
    \<and> view (run_schedule sched hb) (fresh h)
        = view (run_schedule (only (fresh h) sched) hb) (fresh h)
    \<and> view (run_schedule sched hb) (fresh ha)
        = view (run_schedule (only (fresh ha) sched) hb) (fresh ha)"
proof -
  note two = two_subscriptions[OF assms(1,2,3)]
  have 1: "dematerialize source da h = source (fresh h) (snd (new_DeMaterializeSubscriber da h))"
    by (simp add: dematerialize_def lift_def DeMaterializeOperator_call_def
        new_DeMaterializeSubscriber_def)
  have 2: "dematerializers (snd (new_DeMaterializeSubscriber da h)) (fresh h)
        = \<lparr>state = state (subscribers h da), destination = da\<rparr>"
    by (simp add: new_DeMaterializeSubscriber_def)
  have 3: "fresh h \<noteq> fresh ha" by (simp add: two(1))
  have "apart hb (fresh h) sched" "apart hb (fresh ha) sched"
    using assms(1,4) unfolding apart_def list_all_iff by (auto simp: two(2,3))
  then have 4: "view (run_schedule sched hb) (fresh h)
        = view (run_schedule (only (fresh h) sched) hb) (fresh h)"
    and 5: "view (run_schedule sched hb) (fresh ha)
        = view (run_schedule (only (fresh ha) sched) hb) (fresh ha)"
    by (simp_all add: view_schedule)
  from 1 2 3 two(2,3,4,5) 4 5 show ?thesis by blast
qed

theorem subscriptions_independent_witness:
  "(0::nat) \<noteq> 1
   \<and> list_all (\<lambda>(s, ev). s = fresh (initial_heap [] :: (string, string) heap)
         \<or> s = fresh (heap_of (dematerialize (of_events
               [Next (Notif \<lparr>kind = N, value = Some ''A'', error = None\<rparr>)])
             0 (initial_heap [] :: (string, string) heap))))
       [(0, Next (Notif \<lparr>kind = N, value = Some ''B'', error = None\<rparr>)),
        (1, Next (Notif \<lparr>kind = E, value = None, error = Some ''x''\<rparr>)),
        (0, Complete),
        (1, Complete)]
   \<and> received (snd (view (run_schedule
       [(0, Next (Notif \<lparr>kind = N, value = Some ''B'', error = None\<rparr>)),
        (1, Next (Notif \<lparr>kind = E, value = None, error = Some ''x''\<rparr>)),
        (0, Complete),
        (1, Complete)]
       (heap_of (dematerialize (of_events
               [Next (Notif \<lparr>kind = N, value = Some ''A'', error = None\<rparr>)])
          1 (heap_of (dematerialize (of_events
               [Next (Notif \<lparr>kind = N, value = Some ''A'', error = None\<rparr>)])
             0 (initial_heap [] :: (string, string) heap)))))) 0))
     = [Next (Some ''A''), Next (Some ''B''), Complete]
   \<and> view (run_schedule
       [(0, Next (Notif \<lparr>kind = N, value = Some ''B'', error = None\<rparr>)),
        (1, Next (Notif \<lparr>kind = E, value = None, error = Some ''x''\<rparr>)),
        (0, Complete),
        (1, Complete)]
       (heap_of (dematerialize (of_events
               [Next (Notif \<lparr>kind = N, value = Some ''A'', error = None\<rparr>)])
          1 (heap_of (dematerialize (of_events
               [Next (Notif \<lparr>kind = N, value = Some ''A'', error = None\<rparr>)])
             0 (initial_heap [] :: (string, string) heap)))))) 1
     = view (run_schedule
       [(1, Next (Notif \<lparr>kind = E, value = None, error = Some ''x''\<rparr>)),
        (1, Complete)]
       (heap_of (dematerialize (of_events
               [Next (Notif \<lparr>kind = N, value = Some ''A'', error = None\<rparr>)])
          1 (heap_of (dematerialize (of_events
               [Next (Notif \<lparr>kind = N, value = Some ''A'', error = None\<rparr>)])
             0 (initial_heap [] :: (string, string) heap)))))) 1"
  using subscriptions_independent[where da = 0 and db = 1
      and h = "initial_heap [] :: (string, string) heap"
      and evs = "[Next (Notif \<lparr>kind = N, value = Some ''A'', error = None\<rparr>)]"
      and ha = "heap_of (dematerialize (of_events
               [Next (Notif \<lparr>kind = N, value = Some ''A'', error = None\<rparr>)])
             0 (initial_heap [] :: (string, string) heap))"
      and hb = "heap_of (dematerialize (of_events
               [Next (Notif \<lparr>kind = N, value = Some ''A'', error = None\<rparr>)])
          1 (heap_of (dematerialize (of_events
               [Next (Notif \<lparr>kind = N, value = Some ''A'', error = None\<rparr>)])
             0 (initial_heap [] :: (string, string) heap))))"
      and sched = "[(0, Next (Notif \<lparr>kind = N, value = Some ''B'', error = None\<rparr>)),
        (1, Next (Notif \<lparr>kind = E, value = None, error = Some ''x''\<rparr>)),
        (0, Complete),
        (1, Complete)]"
      and source = "of_events [Next (Notif \<lparr>kind = N, value = Some ''A'', error = None\<rparr>)]"]
  by (simp add: run_defs only_def view_def dm_defs chan_defs Let_def)

text \<open>
  Claim C8 (re-entrant unsubscribe). Let the consumer behind an Active destination
  unsubscribe from within its next handler when called with the value of the Next-kind
  Notification \<open>n\<close>, and let \<open>n\<close> be delivered to the Active dematerialize subscriber bound
  to that destination. The delivery returns without an exception, the consumer has
  received that one next call, and every later sequence of deliveries returns without an
  exception and changes nothing: no later event is dispatched downstream.
\<close>

theorem reentrant_unsubscribe:
  assumes "live h s d" "kind n = N" "unsubscribes_in (subscribers h d) (Next (value n))"
  shows "\<exists>h1. deliver s (Next (Notif n)) h = Inr h1
     \<and> received (subscribers h1 d) = received (subscribers h d) @ [Next (value n)]
     \<and> deliver_all s evs h1 = Inr h1"
proof -
  obtain h1 where h1: "deliver s (Next (Notif n)) h = Inr h1"
    using deliver_Notif_Inr by blast
  with assms have "received (subscribers h1 d) = received (subscribers h d) @ [Next (value n)]"
    "state (dematerializers h1 s) = Closed"
    by (auto simp: live_def dm_defs chan_defs Let_def)
  with h1 show ?thesis by (simp add: closed_drop_all)
qed

theorem reentrant_unsubscribe_witness:
  "live (snd (new_DeMaterializeSubscriber 0
       (initial_heap [Next (Some ''A'')] :: (string, string) heap))) 0 0
   \<and> unsubscribes_in (subscribers (snd (new_DeMaterializeSubscriber 0
       (initial_heap [Next (Some ''A'')] :: (string, string) heap))) 0) (Next (Some ''A''))
   \<and> (\<exists>h1. deliver 0 (Next (Notif \<lparr>kind = N, value = Some ''A'', error = None\<rparr>))
         (snd (new_DeMaterializeSubscriber 0
           (initial_heap [Next (Some ''A'')] :: (string, string) heap))) = Inr h1
       \<and> received (subscribers h1 0) = [Next (Some ''A'')]
       \<and> deliver_all 0 [Next (Notif \<lparr>kind = N, value = Some ''B'', error = None\<rparr>), Complete] h1
           = Inr h1)"
  using reentrant_unsubscribe[of
      "snd (new_DeMaterializeSubscriber 0 (initial_heap [Next (Some ''A'')] :: (string, string) heap))"
      0 0 "\<lparr>kind = N, value = Some ''A'', error = None\<rparr>"
      "[Next (Notif \<lparr>kind = N, value = Some ''B'', error = None\<rparr>), Complete]"]
  by (simp add: live_def new_DeMaterializeSubscriber_def initial_heap_def)

text \<open>
  Claim C9 (precondition violation). The next handler does not look at what it is given:
  for a value that is not a Notification, delivered to an Active dematerialize subscriber,
  \<open>_next\<close> raises a TypeError, the exception leaves the delivery with the store untouched,
  and it ends the run of the source, whatever events would have followed. When every next
  value of an input is a Notification, the run returns without an exception.
\<close>

theorem precondition_violation:
  assumes "state (dematerializers h s) = Active" "\<not> is_Notification v" "notifications_only inp"
  shows "DeMaterializeSubscriber__next s v h = Inl (TypeError, h)
     \<and> deliver s (Next v) h = Inl (TypeError, h)
     \<and> deliver_all s (Next v # evs) h = Inl (TypeError, h)
     \<and> (\<exists>h'. deliver_all s inp h = Inr h')"
proof -
  from assms(2) have "DeMaterializeSubscriber__next s v h = Inl (TypeError, h)"
    by (cases v) (simp_all add: DeMaterializeSubscriber__next_def)
  with assms(1) deliver_all_Inr[OF assms(3)] show ?thesis
    by (simp add: DeMaterializeSubscriber_next_def)
qed

theorem precondition_violation_witness:
  "state (dematerializers (snd (new_DeMaterializeSubscriber 0
       (initial_heap [] :: (string, string) heap))) 0) = Active
   \<and> \<not> is_Notification (Null :: (string, string) emitted)
   \<and> notifications_only [Next (Notif \<lparr>kind = N, value = Some ''A'', error = (None :: string option)\<rparr>), Complete]
   \<and> deliver_all 0 [Next Null, Next (Notif \<lparr>kind = N, value = Some ''A'', error = None\<rparr>)]
        (snd (new_DeMaterializeSubscriber 0 (initial_heap [] :: (string, string) heap)))
       = Inl (TypeError, snd (new_DeMaterializeSubscriber 0 (initial_heap [])))
   \<and> (\<exists>h'. deliver_all 0 [Next (Notif \<lparr>kind = N, value = Some ''A'', error = None\<rparr>), Complete]
        (snd (new_DeMaterializeSubscriber 0 (initial_heap [] :: (string, string) heap))) = Inr h')"
  using precondition_violation[of
      "snd (new_DeMaterializeSubscriber 0 (initial_heap [] :: (string, string) heap))" 0 Null
      "[Next (Notif \<lparr>kind = N, value = Some ''A'', error = None\<rparr>), Complete]"
      "[Next (Notif \<lparr>kind = N, value = Some ''A'', error = None\<rparr>)]"]
  by (simp add: new_DeMaterializeSubscriber_def initial_heap_def)

text \<open>
  Claim C10, as stated, fails in its second half. A new subscription is Active; after an
  Error-kind Notification has been replayed its dematerialize subscriber is Closed, closed
  by the teardown of the destination. A later next with \<^verbatim>\<open>null\<close> is then dropped by the
  subscriber's own check: it returns without an exception, where \<open>_next\<close>, had it been
  reached, would have raised a TypeError as it does on the new subscription.
\<close>

theorem replay_counterexample:
  "state (dematerializers (snd (new_DeMaterializeSubscriber 0
       (initial_heap [] :: (string, string) heap))) 0) = Active
   \<and> state (dematerializers (heap_of (deliver 0
        (Next (Notif \<lparr>kind = E, value = None, error = Some ''x''\<rparr>))
        (snd (new_DeMaterializeSubscriber 0 (initial_heap [] :: (string, string) heap))))) 0) = Closed
   \<and> isl (deliver 0 (Next Null)
        (snd (new_DeMaterializeSubscriber 0 (initial_heap [] :: (string, string) heap))))
   \<and> \<not> isl (deliver_all 0
        [Next (Notif \<lparr>kind = E, value = None, error = Some ''x''\<rparr>), Next Null]
        (snd (new_DeMaterializeSubscriber 0 (initial_heap [] :: (string, string) heap))))"
  by (simp add: new_DeMaterializeSubscriber_def initial_heap_def dm_defs chan_defs Let_def)

text \<open>
  Claim C10, amended (replay goes to the destination). The next handler of an Active
  dematerialize subscriber replays a Notification onto its destination, not onto itself:
  for an Error- or Complete-kind Notification the call made is the error or complete
  channel of the destination, not the subscriber's own. When the destination is Active it
  delivers that terminal call, and its teardown closes the dematerialize subscriber at
  that moment; later deliveries are then dropped by the subscriber's own check.
\<close>

theorem replay_onto_destination:
  assumes "state (dematerializers h s) = Active" "destination (dematerializers h s) = d"
    and "kind n \<noteq> N"
  shows "deliver s (Next (Notif n)) h = Inr (observe n (as_observer d) h)
     \<and> observe n (as_observer d) h
         = (case kind n of
              N \<Rightarrow> Subscriber_next d (value n) h
            | E \<Rightarrow> Subscriber_error d (error n) h
            | C \<Rightarrow> Subscriber_complete d h)
     \<and> (state (subscribers h d) = Active \<longrightarrow>
          received (subscribers (observe n (as_observer d) h) d)
            = received (subscribers h d) @ [replayed n]
          \<and> state (subscribers (observe n (as_observer d) h) d) = Closed
          \<and> state (dematerializers (observe n (as_observer d) h) s) = Closed
          \<and> deliver_all s evs (observe n (as_observer d) h)
              = Inr (observe n (as_observer d) h))"
proof -
  have 1: "deliver s (Next (Notif n)) h = Inr (observe n (as_observer d) h)"
    using assms(1,2) by (simp add: dm_defs)
  have 2: "observe n (as_observer d) h
         = (case kind n of
              N \<Rightarrow> Subscriber_next d (value n) h
            | E \<Rightarrow> Subscriber_error d (error n) h
            | C \<Rightarrow> Subscriber_complete d h)"
    by (cases "kind n") (simp_all add: observe_def as_observer_def)
  have 3: "received (subscribers (observe n (as_observer d) h) d)
            = received (subscribers h d) @ [replayed n]"
    "state (subscribers (observe n (as_observer d) h) d) = Closed"
    "state (dematerializers (observe n (as_observer d) h) s) = Closed"
    if "state (subscribers h d) = Active"
    using assms that
    by (cases "kind n"; simp add: 2 chan_defs replayed_def Let_def)+
  have 4: "deliver_all s evs (observe n (as_observer d) h) = Inr (observe n (as_observer d) h)"
    if "state (subscribers h d) = Active"
    using 3(3)[OF that] by (rule closed_drop_all)
  from 1 2 3 4 show ?thesis by blast
qed

theorem replay_onto_destination_witness:
  "state (dematerializers (snd (new_DeMaterializeSubscriber 0
       (initial_heap [] :: (string, string) heap))) 0) = Active
   \<and> destination (dematerializers (snd (new_DeMaterializeSubscriber 0
       (initial_heap [] :: (string, string) heap))) 0) = 0
   \<and> kind \<lparr>kind = E, value = (None :: string option), error = Some ''x''\<rparr> \<noteq> N
   \<and> state (subscribers (snd (new_DeMaterializeSubscriber 0
       (initial_heap [] :: (string, string) heap))) 0) = Active
   \<and> state (dematerializers (heap_of (deliver 0
        (Next (Notif \<lparr>kind = E, value = None, error = Some ''x''\<rparr>))
        (snd (new_DeMaterializeSubscriber 0 (initial_heap [] :: (string, string) heap))))) 0) = Closed
   \<and> received (subscribers (heap_of (deliver 0
        (Next (Notif \<lparr>kind = E, value = None, error = Some ''x''\<rparr>))
        (snd (new_DeMaterializeSubscriber 0 (initial_heap [] :: (string, string) heap))))) 0)
       = [Error (Some ''x'')]"
  using replay_onto_destination[of
      "snd (new_DeMaterializeSubscriber 0 (initial_heap [] :: (string, string) heap))" 0 0
      "\<lparr>kind = E, value = None, error = Some ''x''\<rparr>" "[Next Null, Complete]"]
  by (simp add: new_DeMaterializeSubscriber_def initial_heap_def chan_defs replayed_def Let_def)

end
